theory Spec2Isabelle
  imports Complex_Main "HOL-Library.Sublist" "HOL-Library.Log_Nat"
begin

section \<open>Shared browser and HTTP model\<close>

text \<open>
  The repository holds several generations of one React component \<open>App\<close> and the
  file-picker widget \<open>AudioUploader\<close>. Every handler is modelled as a function on
  a \<open>world\<close>: the component's view state (the \<open>useState\<close> cells), the browser's
  table of live object URLs, and the trace of effects the handler has issued
  (HTTP requests and timers). An \<open>await\<close> splits a handler into the part that
  runs before the request is sent and the continuation that runs once the
  request has been answered; the answer is an argument of the continuation.
\<close>

text \<open>A browser \<open>File\<close>: the three properties the components read.\<close>

record audio_file =
  file_name :: string
  file_size :: nat
  file_type :: string

text \<open>
  One field of a \<open>FormData\<close>. A number appended to a form is kept as the number
  (the browser sends its decimal rendering).
\<close>

datatype form_value = FileField audio_file | TextField string | NumberField rat

type_synonym form_data = "(string \<times> form_value) list"

text \<open>
  \<open>axios.post(url, formData, {responseType})\<close> and \<open>axios.get(url)\<close>; the flag
  of \<open>Post\<close> is \<open>responseType: 'blob'\<close>.
\<close>

datatype request = Post string form_data bool | Get string

datatype effect = Request request | Timer nat

text \<open>
  The body of a failed response as the handlers inspect it. \<open>JsonData e\<close> is a
  parsed body whose \<open>error\<close> property is \<open>e\<close>; \<open>BlobData p\<close> is a blob whose
  text \<open>JSON.parse\<close> turns into an object with \<open>error\<close> property \<open>e\<close> when
  \<open>p = Some e\<close>, and on which \<open>JSON.parse\<close> throws when \<open>p = None\<close>.
\<close>

datatype response_data = JsonData "string option" | BlobData "string option option"

text \<open>
  A rejected axios promise: \<open>err.message\<close> and \<open>err.response.data\<close>; the second
  is \<open>None\<close> when there is no response (network or transport failure) or the
  response has no body.
\<close>

datatype axios_error = AxiosError string "response_data option"

datatype 'a outcome = Resolved 'a | Rejected axios_error

record 'v world =
  view :: 'v
  objectUrls :: "string list"
  urlSeq :: nat
  trace :: "effect list"

text \<open>JavaScript truthiness of a string-or-null value, and \<open>a || b\<close> on strings.\<close>

definition truthy :: "string option \<Rightarrow> bool" where
  "truthy v = (case v of None \<Rightarrow> False | Some s \<Rightarrow> s \<noteq> [])"

definition or_str :: "string option \<Rightarrow> string \<Rightarrow> string" where
  "or_str v d = (if truthy v then the v else d)"

text \<open>A value spliced into a template literal: \<open>undefined\<close> prints as its name.\<close>

definition tmpl :: "string option \<Rightarrow> string" where
  "tmpl v = (case v of None \<Rightarrow> ''undefined'' | Some s \<Rightarrow> s)"

text \<open>The decimal rendering of a number inside a string.\<close>

definition digit :: "nat \<Rightarrow> char" where
  "digit n = ''0123456789'' ! n"

fun show_nat :: "nat \<Rightarrow> string" where
  "show_nat n =
     (if n < 10 then [digit n] else show_nat (n div 10) @ [digit (n mod 10)])"

declare show_nat.simps [simp del]

text \<open>
  JavaScript numbers are IEEE 754 doubles. A finite double is a rational
  \<open>m * 2^e\<close> with \<open>\<bar>m\<bar> < 2^53\<close>, and the sum or product of two doubles is the
  exact result rounded to the nearest such value, ties to the even mantissa.
  \<open>ilog2 q\<close> is the exponent of the leading bit of a positive \<open>q\<close>. Overflow to
  \<open>Infinity\<close> and the subnormal range are not modelled: neither is met by adding
  a quarter to a finite double.
\<close>

definition round_even :: "rat \<Rightarrow> int" where
  "round_even q =
     (let f = \<lfloor>q\<rfloor>; r = q - of_int f
      in if r < 1 / 2 then f else if 1 / 2 < r then f + 1 else if even f then f else f + 1)"

definition ilog2 :: "rat \<Rightarrow> int" where
  "ilog2 q =
     (let k = bitlen (fst (quotient_of q)) - bitlen (snd (quotient_of q))
      in if 2 powi k \<le> q then k else k - 1)"

definition to_double :: "rat \<Rightarrow> rat" where
  "to_double q =
     (if q = 0 then 0
      else let e = ilog2 \<bar>q\<bar> - 52
           in of_int (round_even (q / 2 powi e)) * 2 powi e)"

definition js_add :: "rat \<Rightarrow> rat \<Rightarrow> rat" where
  "js_add a b = to_double (a + b)"

definition js_mul :: "rat \<Rightarrow> rat \<Rightarrow> rat" where
  "js_mul a b = to_double (a * b)"

text \<open>The multiples of a quarter of magnitude at most \<open>2^50\<close>.\<close>

definition on_quarter_grid :: "rat \<Rightarrow> bool" where
  "on_quarter_grid x = (of_int \<lfloor>4 * x\<rfloor> = 4 * x \<and> \<bar>x\<bar> \<le> 2 ^ 50)"

definition issue :: "request \<Rightarrow> 'v world \<Rightarrow> 'v world" where
  "issue r w = w\<lparr>trace := trace w @ [Request r]\<rparr>"

definition setTimeout :: "nat \<Rightarrow> 'v world \<Rightarrow> 'v world" where
  "setTimeout ms w = w\<lparr>trace := trace w @ [Timer ms]\<rparr>"


text \<open>
  \<open>URL.createObjectURL\<close> hands out a fresh \<open>blob:\<close> URL and keeps it alive until
  \<open>URL.revokeObjectURL\<close> is called on it.
\<close>

definition createObjectURL :: "'v world \<Rightarrow> string \<times> 'v world" where
  "createObjectURL w =
     (let u = ''blob:'' @ show_nat (urlSeq w)
      in (u, w\<lparr>objectUrls := u # objectUrls w, urlSeq := Suc (urlSeq w)\<rparr>))"

definition revokeObjectURL :: "string \<Rightarrow> 'v world \<Rightarrow> 'v world" where
  "revokeObjectURL u w = w\<lparr>objectUrls := removeAll u (objectUrls w)\<rparr>"

section \<open>The direct-download interfaces (\<open>App\<close> with \<open>/api/process-audio\<close>)\<close>

text \<open>
  The five state cells of the TypeScript component that posts to
  \<open>/api/process-audio\<close> and of its JavaScript successor. The offset-adjustment
  component below keeps the same five cells and adds its own.
\<close>

record basic_view =
  vocalAudio :: "audio_file option"
  beatAudio :: "audio_file option"
  isProcessing :: bool
  processedAudio :: "string option"
  error :: "string option"

definition initial_basic :: basic_view where
  "initial_basic =
     \<lparr>vocalAudio = None, beatAudio = None, isProcessing = False,
      processedAudio = None, error = None\<rparr>"

definition initial_world :: "'v \<Rightarrow> 'v world" where
  "initial_world v = \<lparr>view = v, objectUrls = [], urlSeq = 0, trace = []\<rparr>"

definition setView :: "('v \<Rightarrow> 'v) \<Rightarrow> 'v world \<Rightarrow> 'v world" where
  "setView f w = w\<lparr>view := f (view w)\<rparr>"

definition handleVocalAudioChange :: "audio_file list \<Rightarrow> 'a basic_view_scheme world \<Rightarrow> 'a basic_view_scheme world" where
  "handleVocalAudioChange files w =
     (case files of [] \<Rightarrow> w | f # _ \<Rightarrow> setView (\<lambda>s. s\<lparr>vocalAudio := Some f\<rparr>) w)"

definition handleBeatAudioChange :: "audio_file list \<Rightarrow> 'a basic_view_scheme world \<Rightarrow> 'a basic_view_scheme world" where
  "handleBeatAudioChange files w =
     (case files of [] \<Rightarrow> w | f # _ \<Rightarrow> setView (\<lambda>s. s\<lparr>beatAudio := Some f\<rparr>) w)"

definition process_form :: "audio_file \<Rightarrow> audio_file \<Rightarrow> form_data" where
  "process_form v b = [(''vocal_file'', FileField v), (''beat_file'', FileField b)]"

text \<open>
  The TypeScript component: \<open>handleSubmit\<close>, the \<open>disabled\<close> attribute of its
  submit button, and its teardown (it registers no effect, so nothing runs).
\<close>

definition handleSubmit_ts_begin :: "basic_view world \<Rightarrow> basic_view world option" where
  "handleSubmit_ts_begin w =
     (case (vocalAudio (view w), beatAudio (view w)) of
        (Some v, Some b) \<Rightarrow>
          Some (issue (Post ''/api/process-audio'' (process_form v b) True)
                 (setView (\<lambda>s. s\<lparr>isProcessing := True, error := None\<rparr>) w))
      | _ \<Rightarrow> None)"

definition handleSubmit_ts_end :: "unit outcome \<Rightarrow> basic_view world \<Rightarrow> basic_view world" where
  "handleSubmit_ts_end oc w =
     (case oc of
        Resolved _ \<Rightarrow>
          (let (url, w1) = createObjectURL w
           in setView (\<lambda>s. s\<lparr>processedAudio := Some url, isProcessing := False\<rparr>) w1)
      | Rejected err \<Rightarrow>
          setView (\<lambda>s. s\<lparr>error := Some ''An error occurred while processing the audio files.'',
                         isProcessing := False\<rparr>) w)"

definition handleSubmit_ts :: "unit outcome \<Rightarrow> basic_view world \<Rightarrow> basic_view world" where
  "handleSubmit_ts oc w =
     (case handleSubmit_ts_begin w of None \<Rightarrow> w | Some w' \<Rightarrow> handleSubmit_ts_end oc w')"

definition submit_disabled_ts :: "basic_view \<Rightarrow> bool" where
  "submit_disabled_ts s = (vocalAudio s = None \<or> beatAudio s = None)"

definition unmount_basic :: "basic_view world \<Rightarrow> basic_view world" where
  "unmount_basic w = w"

text \<open>
  \<open>handleApiError\<close> of the offset-adjustment component; the \<open>catch\<close> block of
  the JavaScript \<open>/api/process-audio\<close> component is the same code written in
  line. The \<open>FileReader\<close> that decodes a blob body delivers its \<open>load\<close> event
  asynchronously; the model runs the \<open>onload\<close> callback at once.
\<close>

fun handleApiError :: "axios_error \<Rightarrow> 'a basic_view_scheme \<Rightarrow> 'a basic_view_scheme" where
  "handleApiError (AxiosError message (Some (BlobData (Some e)))) s =
     s\<lparr>error := Some (''Server error: '' @ or_str e ''Unknown error'')\<rparr>"
| "handleApiError (AxiosError message (Some (BlobData None))) s =
     s\<lparr>error := Some (''Error processing audio: '' @ message)\<rparr>"
| "handleApiError (AxiosError message (Some (JsonData e))) s =
     s\<lparr>error := Some (''Error: '' @ or_str e message)\<rparr>"
| "handleApiError (AxiosError message None) s =
     s\<lparr>error := Some (''Error processing audio: '' @ message)\<rparr>"

text \<open>
  What a successful \<open>/api/process-audio\<close> response carries: audio, or (when the
  content type includes \<open>application/json\<close>) a blob of JSON text, given by what
  \<open>JSON.parse\<close> makes of it: \<open>None\<close> when it throws, else the \<open>error\<close> property.
\<close>

datatype process_response = AudioBlob | JsonBlob "string option option"

definition handleSubmit_blob :: "process_response outcome \<Rightarrow> basic_view world \<Rightarrow> basic_view world" where
  "handleSubmit_blob oc w =
     (case (vocalAudio (view w), beatAudio (view w)) of
        (Some v, Some b) \<Rightarrow>
          (let w1 = issue (Post ''/api/process-audio'' (process_form v b) True)
                      (setView (\<lambda>s. s\<lparr>isProcessing := True, error := None,
                                       processedAudio := None\<rparr>) w)
           in case oc of
                Resolved (JsonBlob (Some e)) \<Rightarrow>
                  setView (\<lambda>s. s\<lparr>isProcessing := False,
                                 error := Some (''Server error: '' @ tmpl e)\<rparr>) w1
              | Resolved (JsonBlob None) \<Rightarrow>
                  setView (\<lambda>s. s\<lparr>isProcessing := False\<rparr>) w1
              | Resolved AudioBlob \<Rightarrow>
                  (let (url, w2) = createObjectURL w1
                   in setView (\<lambda>s. s\<lparr>processedAudio := Some url, isProcessing := False\<rparr>) w2)
              | Rejected err \<Rightarrow>
                  setView (\<lambda>s. (handleApiError err s)\<lparr>isProcessing := False\<rparr>) w1)
      | _ \<Rightarrow> w)"

definition submit_disabled_blob :: "basic_view \<Rightarrow> bool" where
  "submit_disabled_blob s = (vocalAudio s = None \<or> beatAudio s = None \<or> isProcessing s)"

section \<open>The offset-adjustment interface (\<open>App\<close> with \<open>/api/prepare-audio\<close>)\<close>

record app_view = basic_view +
  vocalKey :: string
  beatKey :: string
  vocalBpm :: string
  beatBpm :: string
  processingId :: "string option"
  offsetBeats :: rat
  previewUrl :: "string option"
  isAdjusting :: bool
  isMerging :: bool
  isPreviewMode :: bool

definition initial_view :: app_view where
  "initial_view =
     \<lparr>vocalAudio = None, beatAudio = None, isProcessing = False,
      processedAudio = None, error = None, vocalKey = [], beatKey = [],
      vocalBpm = [], beatBpm = [], processingId = None, offsetBeats = 0,
      previewUrl = None, isAdjusting = False, isMerging = False,
      isPreviewMode = False\<rparr>"

text \<open>
  The body of a successful \<open>/api/prepare-audio\<close> response as axios hands it
  over, parsed: \<open>offset_beats\<close> is the number the JSON text denotes, a double.
\<close>

record prepare_response =
  processing_id :: "string option"
  preview_url :: "string option"
  offset_beats :: "rat option"

text \<open>
  \<open>setProcessedAudio\<close> together with the effect declared on \<open>[processedAudio]\<close>:
  when the value changes, React runs the cleanup of the previous render, which
  revokes the previous URL if there was one.
\<close>

definition setProcessedAudio :: "string option \<Rightarrow> app_view world \<Rightarrow> app_view world" where
  "setProcessedAudio v w =
     (let old = processedAudio (view w);
          w' = setView (\<lambda>s. s\<lparr>processedAudio := v\<rparr>) w
      in if old = v then w'
         else (case old of None \<Rightarrow> w' | Some u \<Rightarrow> revokeObjectURL u w'))"

definition append_if :: "string \<Rightarrow> string \<Rightarrow> form_data \<Rightarrow> form_data" where
  "append_if k v fd = (if v \<noteq> [] then fd @ [(k, TextField v)] else fd)"

definition prepare_form :: "app_view \<Rightarrow> audio_file \<Rightarrow> audio_file \<Rightarrow> form_data" where
  "prepare_form s v b =
     append_if ''beat_bpm'' (beatBpm s)
       (append_if ''vocal_bpm'' (vocalBpm s)
         (append_if ''beat_key'' (beatKey s)
           (append_if ''vocal_key'' (vocalKey s)
             (process_form v b))))"

definition handleSubmit_begin :: "app_view world \<Rightarrow> app_view world option" where
  "handleSubmit_begin w =
     (case (vocalAudio (view w), beatAudio (view w)) of
        (Some v, Some b) \<Rightarrow>
          Some (issue (Post ''/api/prepare-audio'' (prepare_form (view w) v b) False)
            (setView (\<lambda>s. s\<lparr>isPreviewMode := False\<rparr>)
              (setProcessedAudio None
                (setView (\<lambda>s. s\<lparr>isProcessing := True, error := None\<rparr>) w))))
      | _ \<Rightarrow> None)"

definition handleSubmit_end :: "prepare_response outcome \<Rightarrow> app_view world \<Rightarrow> app_view world" where
  "handleSubmit_end oc w =
     (case oc of
        Resolved r \<Rightarrow>
          setView (\<lambda>s. s\<lparr>processingId := processing_id r,
                         previewUrl := Some (''/api'' @ tmpl (preview_url r)),
                         offsetBeats := (case offset_beats r of None \<Rightarrow> 0 | Some x \<Rightarrow> x),
                         isPreviewMode := True,
                         isProcessing := False\<rparr>) w
      | Rejected err \<Rightarrow>
          setView (\<lambda>s. (handleApiError err s)\<lparr>isProcessing := False\<rparr>) w)"

definition handleSubmit :: "prepare_response outcome \<Rightarrow> app_view world \<Rightarrow> app_view world" where
  "handleSubmit oc w =
     (case handleSubmit_begin w of None \<Rightarrow> w | Some w' \<Rightarrow> handleSubmit_end oc w')"

definition handleOffsetChange_begin :: "rat \<Rightarrow> app_view world \<Rightarrow> app_view world option" where
  "handleOffsetChange_begin newOffset w =
     (if \<not> truthy (processingId (view w)) then None
      else Some (issue (Post ''/api/adjust-offset''
                   [(''processing_id'', TextField (the (processingId (view w)))),
                    (''offset_beats'', NumberField newOffset)] False)
             (setView (\<lambda>s. s\<lparr>isAdjusting := True, offsetBeats := newOffset\<rparr>) w)))"

text \<open>
  The continuation of \<open>handleOffsetChange\<close>; the answer carries the new preview
  path, and \<open>now\<close> is the value of \<open>Date.now()\<close>.
\<close>

definition handleOffsetChange_end :: "string option outcome \<Rightarrow> nat \<Rightarrow> app_view world \<Rightarrow> app_view world" where
  "handleOffsetChange_end oc now w =
     (case oc of
        Resolved p \<Rightarrow>
          setView (\<lambda>s. s\<lparr>previewUrl := Some (''/api'' @ tmpl p @ ''?t='' @ show_nat now),
                         isAdjusting := False\<rparr>) w
      | Rejected err \<Rightarrow>
          setView (\<lambda>s. (handleApiError err s)\<lparr>isAdjusting := False\<rparr>) w)"

definition handleOffsetChange :: "rat \<Rightarrow> string option outcome \<Rightarrow> nat \<Rightarrow> app_view world \<Rightarrow> app_view world" where
  "handleOffsetChange newOffset oc now w =
     (case handleOffsetChange_begin newOffset w of
        None \<Rightarrow> w
      | Some w' \<Rightarrow> handleOffsetChange_end oc now w')"


definition handleQuarterBeatAdjustment :: "rat \<Rightarrow> string option outcome \<Rightarrow> nat \<Rightarrow> app_view world \<Rightarrow> app_view world" where
  "handleQuarterBeatAdjustment direction oc now w =
     handleOffsetChange (js_add (offsetBeats (view w)) (js_mul direction (1 / 4))) oc now w"


definition resetOffset :: "string option outcome \<Rightarrow> nat \<Rightarrow> app_view world \<Rightarrow> app_view world" where
  "resetOffset oc now w = handleOffsetChange 0 oc now w"

definition handleFinalizeMix_begin :: "app_view world \<Rightarrow> app_view world option" where
  "handleFinalizeMix_begin w =
     (if \<not> truthy (processingId (view w)) then None
      else Some (issue (Post ''/api/finalize-mix''
                   [(''processing_id'', TextField (the (processingId (view w))))] True)
             (setView (\<lambda>s. s\<lparr>isMerging := True\<rparr>) w)))"

definition handleFinalizeMix_end :: "unit outcome \<Rightarrow> app_view world \<Rightarrow> app_view world" where
  "handleFinalizeMix_end oc w =
     (case oc of
        Resolved _ \<Rightarrow>
          (let (url, w1) = createObjectURL w
           in setView (\<lambda>s. s\<lparr>isMerging := False\<rparr>)
                (setView (\<lambda>s. s\<lparr>isPreviewMode := False\<rparr>)
                  (setProcessedAudio (Some url) w1)))
      | Rejected err \<Rightarrow>
          setView (\<lambda>s. (handleApiError err s)\<lparr>isMerging := False\<rparr>) w)"

definition handleFinalizeMix :: "unit outcome \<Rightarrow> app_view world \<Rightarrow> app_view world" where
  "handleFinalizeMix oc w =
     (case handleFinalizeMix_begin w of
        None \<Rightarrow> w
      | Some w' \<Rightarrow> handleFinalizeMix_end oc w')"

text \<open>The \<open>onClick\<close> of the "New Mix" button.\<close>

definition newMix :: "app_view world \<Rightarrow> app_view world" where
  "newMix w =
     setView (\<lambda>s. s\<lparr>offsetBeats := 0\<rparr>)
       (setView (\<lambda>s. s\<lparr>previewUrl := None\<rparr>)
         (setView (\<lambda>s. s\<lparr>processingId := None\<rparr>)
           (setProcessedAudio None
             (setView (\<lambda>s. s\<lparr>isPreviewMode := False\<rparr>) w))))"

text \<open>Unmounting runs the cleanup of the last render's effect.\<close>

definition unmount :: "app_view world \<Rightarrow> app_view world" where
  "unmount w =
     (case processedAudio (view w) of None \<Rightarrow> w | Some u \<Rightarrow> revokeObjectURL u w)"


definition submit_disabled :: "app_view \<Rightarrow> bool" where
  "submit_disabled s = (vocalAudio s = None \<or> beatAudio s = None \<or> isProcessing s)"

definition preview_shown :: "app_view \<Rightarrow> bool" where
  "preview_shown s = (isPreviewMode s \<and> truthy (previewUrl s))"

definition arrow_disabled :: "app_view \<Rightarrow> bool" where
  "arrow_disabled s = isAdjusting s"















section \<open>The job-polling interface (\<open>App\<close> with \<open>/process\<close> and \<open>/status\<close>)\<close>

record job_view =
  vocalFile :: "audio_file option"
  beatFile :: "audio_file option"
  processing :: bool
  jobId :: "string option"
  status :: string
  downloadUrl :: "string option"
  error_text :: string

definition initial_job :: job_view where
  "initial_job =
     \<lparr>vocalFile = None, beatFile = None, processing = False, jobId = None,
      status = ''idle'', downloadUrl = None, error_text = []\<rparr>"

definition API_URL :: string where
  "API_URL = ''http://localhost:8000''"

definition handleVocalUpload :: "audio_file option \<Rightarrow> job_view world \<Rightarrow> job_view world" where
  "handleVocalUpload f w = setView (\<lambda>s. s\<lparr>vocalFile := f\<rparr>) w"

definition handleBeatUpload :: "audio_file option \<Rightarrow> job_view world \<Rightarrow> job_view world" where
  "handleBeatUpload f w = setView (\<lambda>s. s\<lparr>beatFile := f\<rparr>) w"

text \<open>
  The body of an answer of the status endpoint as \<open>pollStatus\<close> reads it:
  \<open>StatusBody st\<close> is a body whose \<open>status\<close> property is \<open>st\<close> (\<open>None\<close> when the
  body has no such property), \<open>NullBody\<close> is the body \<open>null\<close> or \<open>undefined\<close>, on
  which reading the property throws.
\<close>

datatype status_answer = StatusBody "string option" | NullBody

text \<open>
  \<open>pollStatus\<close>. The list holds the answers of the status endpoint in the order
  they arrive, each a body or a rejection. An exception thrown inside the
  \<open>try\<close> block runs the \<open>catch\<close> block, as a rejection does. The result is
  \<open>None\<close> as long as the polling has not settled: the answers ran out while the
  reported status was still \<open>processing\<close>.
\<close>

fun pollStatus :: "string option \<Rightarrow> status_answer outcome list \<Rightarrow> job_view world \<Rightarrow> job_view world option" where
  "pollStatus jid [] w = None"
| "pollStatus jid (Resolved (StatusBody st) # rest) w =
     (let w1 = issue (Get (API_URL @ ''/status/'' @ tmpl jid)) w
      in if st = Some ''completed'' then
           Some (setView (\<lambda>s. s\<lparr>status := ''completed'', processing := False,
                                downloadUrl := Some (API_URL @ ''/download/'' @ tmpl jid)\<rparr>) w1)
         else if st = Some ''processing'' then
           pollStatus jid rest (setTimeout 2000 w1)
         else
           Some (setView (\<lambda>s. s\<lparr>status := ''error'', processing := False,
                                error_text := ''Processing failed''\<rparr>) w1))"
| "pollStatus jid (Resolved NullBody # rest) w =
     (let w1 = issue (Get (API_URL @ ''/status/'' @ tmpl jid)) w
      in Some (setView (\<lambda>s. s\<lparr>status := ''error'', processing := False,
                              error_text := ''Error checking processing status''\<rparr>) w1))"
| "pollStatus jid (Rejected err # rest) w =
     (let w1 = issue (Get (API_URL @ ''/status/'' @ tmpl jid)) w
      in Some (setView (\<lambda>s. s\<lparr>status := ''error'', processing := False,
                              error_text := ''Error checking processing status''\<rparr>) w1))"

definition handleSubmit_job :: "string option outcome \<Rightarrow> status_answer outcome list \<Rightarrow> job_view world \<Rightarrow> job_view world option" where
  "handleSubmit_job post polls w =
     (case (vocalFile (view w), beatFile (view w)) of
        (Some v, Some b) \<Rightarrow>
          (let w1 = issue (Post (API_URL @ ''/process'') (process_form v b) False)
                      (setView (\<lambda>s. s\<lparr>processing := True, status := ''processing'',
                                       error_text := []\<rparr>) w)
           in case post of
                Resolved job_id \<Rightarrow>
                  pollStatus job_id polls (setView (\<lambda>s. s\<lparr>jobId := job_id\<rparr>) w1)
              | Rejected err \<Rightarrow>
                  Some (setView (\<lambda>s. s\<lparr>error_text := ''Error processing files. Please try again.'',
                                       status := ''error'', processing := False\<rparr>) w1))
      | _ \<Rightarrow> Some (setView (\<lambda>s. s\<lparr>error_text := ''Please upload both vocal and beat files''\<rparr>) w))"

definition submit_disabled_job :: "job_view \<Rightarrow> bool" where
  "submit_disabled_job s = (processing s \<or> vocalFile s = None \<or> beatFile s = None)"

section \<open>The file picker (\<open>AudioUploader\<close>)\<close>

text \<open>
  \<open>onDrop\<close> and \<open>removeFile\<close> call the owner's \<open>onFileSelected\<close>. Rendering the
  picker with a file whose type starts with \<open>audio/\<close> evaluates
  \<open>URL.createObjectURL(file)\<close> for the preview player. The component registers
  no effect, so nothing runs when it is torn down.
\<close>

definition onDrop :: "(audio_file option \<Rightarrow> 'v world \<Rightarrow> 'v world) \<Rightarrow> audio_file list \<Rightarrow> 'v world \<Rightarrow> 'v world" where
  "onDrop onFileSelected acceptedFiles w =
     (case acceptedFiles of [] \<Rightarrow> w | f # _ \<Rightarrow> onFileSelected (Some f) w)"

definition removeFile :: "(audio_file option \<Rightarrow> 'v world \<Rightarrow> 'v world) \<Rightarrow> 'v world \<Rightarrow> 'v world" where
  "removeFile onFileSelected w = onFileSelected None w"

definition render_AudioUploader :: "audio_file option \<Rightarrow> 'v world \<Rightarrow> 'v world" where
  "render_AudioUploader f w =
     (case f of
        None \<Rightarrow> w
      | Some a \<Rightarrow> if prefix ''audio/'' (file_type a) then snd (createObjectURL w) else w)"

definition unmount_AudioUploader :: "'v world \<Rightarrow> 'v world" where
  "unmount_AudioUploader w = w"

text \<open>The job-polling \<open>App\<close> renders one picker per track and registers no effect either.\<close>

definition render_job :: "job_view world \<Rightarrow> job_view world" where
  "render_job w =
     render_AudioUploader (beatFile (view w)) (render_AudioUploader (vocalFile (view w)) w)"

definition unmount_job :: "job_view world \<Rightarrow> job_view world" where
  "unmount_job w = unmount_AudioUploader (unmount_AudioUploader w)"

text \<open>Sample data: two selected files and the view after a successful prepare request.\<close>

definition sample_vocal :: audio_file where
  "sample_vocal = \<lparr>file_name = ''vocal.wav'', file_size = 2048, file_type = ''audio/wav''\<rparr>"

definition sample_beat :: audio_file where
  "sample_beat = \<lparr>file_name = ''beat.mp3'', file_size = 4096, file_type = ''audio/mpeg''\<rparr>"

definition sample_selected :: "app_view world" where
  "sample_selected =
     handleBeatAudioChange [sample_beat]
       (handleVocalAudioChange [sample_vocal] (initial_world initial_view))"

definition sample_prepared :: prepare_response where
  "sample_prepared =
     \<lparr>processing_id = Some ''p1'', preview_url = Some ''/preview/p1'',
      offset_beats = Some (1 / 2)\<rparr>"

definition sample_preview :: "app_view world" where
  "sample_preview = handleSubmit (Resolved sample_prepared) sample_selected"

text \<open>
  The preview page when the backend's answer carries the offset \<open>x\<close>, when its
  identifier is the empty string, and when it carries no identifier at all.
\<close>

definition sample_with_offset :: "rat \<Rightarrow> app_view world" where
  "sample_with_offset x =
     handleSubmit (Resolved (sample_prepared\<lparr>offset_beats := Some x\<rparr>)) sample_selected"

definition sample_empty_id :: "app_view world" where
  "sample_empty_id =
     handleSubmit (Resolved (sample_prepared\<lparr>processing_id := Some []\<rparr>)) sample_selected"

definition sample_no_id :: "app_view world" where
  "sample_no_id =
     handleSubmit (Resolved (sample_prepared\<lparr>processing_id := None\<rparr>)) sample_selected"

text \<open>The double nearest to 0.1.\<close>

definition double_tenth :: rat where
  "double_tenth = 3602879701896397 / 36028797018963968"

definition sample_final :: "app_view world" where
  "sample_final = handleFinalizeMix (Resolved ()) sample_preview"

definition sample_basic :: "basic_view world" where
  "sample_basic =
     handleBeatAudioChange [sample_beat]
       (handleVocalAudioChange [sample_vocal] (initial_world initial_basic))"

definition sample_job :: "job_view world" where
  "sample_job =
     handleBeatUpload (Some sample_beat)
       (handleVocalUpload (Some sample_vocal) (initial_world initial_job))"

definition network_error :: axios_error where
  "network_error = AxiosError ''Network Error'' None"

definition server_error :: axios_error where
  "server_error =
     AxiosError ''Request failed with status code 500'' (Some (JsonData (Some ''boom'')))"




section \<open>Properties of the offset-adjustment interface\<close>

lemmas sample_defs =
  sample_preview_def sample_selected_def sample_prepared_def sample_vocal_def
  sample_beat_def initial_world_def initial_view_def network_error_def
  handleSubmit_def handleSubmit_begin_def handleSubmit_end_def
  handleVocalAudioChange_def handleBeatAudioChange_def prepare_form_def append_if_def
  process_form_def
  setProcessedAudio_def setView_def issue_def tmpl_def

lemma handleApiError_frame [simp]:
  "offsetBeats (handleApiError err s) = offsetBeats s"
  "previewUrl (handleApiError err s) = previewUrl s"
  "processingId (handleApiError err s) = processingId s"
  "processedAudio (handleApiError err s) = processedAudio s"
  "isPreviewMode (handleApiError err s) = isPreviewMode s"
  by (induction err s rule: handleApiError.induct; simp)+

lemma sample_preview_view:
  "view sample_preview =
     initial_view\<lparr>vocalAudio := Some sample_vocal, beatAudio := Some sample_beat,
       processingId := Some ''p1'', previewUrl := Some ''/api/preview/p1'',
       offsetBeats := 1 / 2, isPreviewMode := True\<rparr>"
  by (simp add: sample_defs)

lemma sample_preview_truthy: "truthy (processingId (view sample_preview))"
  by (simp add: sample_preview_view truthy_def)

lemma sample_preview_world:
  "trace sample_preview =
     [Request (Post ''/api/prepare-audio'' (process_form sample_vocal sample_beat) False)]"
  "objectUrls sample_preview = []"
  "urlSeq sample_preview = 0"
  by (simp_all add: sample_defs Let_def)

lemma sample_selected_view:
  "vocalAudio (view sample_selected) = Some sample_vocal"
  "beatAudio (view sample_selected) = Some sample_beat"
  by (simp_all add: sample_selected_def handleVocalAudioChange_def handleBeatAudioChange_def
        setView_def)

lemma sample_basic_view:
  "view sample_basic =
     initial_basic\<lparr>vocalAudio := Some sample_vocal, beatAudio := Some sample_beat\<rparr>"
  "trace sample_basic = []"
  "objectUrls sample_basic = []"
  "urlSeq sample_basic = 0"
  by (simp_all add: sample_basic_def handleVocalAudioChange_def handleBeatAudioChange_def
        setView_def initial_world_def)

lemma handleApiError_sets_error: "truthy (error (handleApiError err s))"
  by (induction err s rule: handleApiError.induct) (simp_all add: truthy_def)

lemma newMix_view:
  "view (newMix w) =
     (view w)\<lparr>isPreviewMode := False, processedAudio := None, processingId := None,
       previewUrl := None, offsetBeats := 0\<rparr>"
  by (simp add: newMix_def setView_def setProcessedAudio_def revokeObjectURL_def Let_def
        split: option.splits)

lemma newMix_urls:
  "objectUrls (newMix w) =
     (case processedAudio (view w) of
        None \<Rightarrow> objectUrls w
      | Some u \<Rightarrow> removeAll u (objectUrls w))"
  by (simp add: newMix_def setView_def setProcessedAudio_def revokeObjectURL_def Let_def
        split: option.splits)

lemma sample_final_world:
  "view sample_final =
     (view sample_preview)\<lparr>processedAudio := Some ''blob:0'', isPreviewMode := False\<rparr>"
  "objectUrls sample_final = [''blob:0'']"
  by (simp_all add: sample_final_def handleFinalizeMix_def handleFinalizeMix_begin_def
        handleFinalizeMix_end_def truthy_def sample_preview_view
        sample_preview_world createObjectURL_def setProcessedAudio_def setView_def issue_def
        initial_view_def show_nat.simps digit_def Let_def)

lemma sample_submit_view:
  "view (handleSubmit (Resolved r) sample_selected) =
     initial_view\<lparr>vocalAudio := Some sample_vocal, beatAudio := Some sample_beat,
       processingId := processing_id r,
       previewUrl := Some (''/api'' @ tmpl (preview_url r)),
       offsetBeats := (case offset_beats r of None \<Rightarrow> 0 | Some x \<Rightarrow> x),
       isPreviewMode := True\<rparr>"
  by (simp add: sample_selected_def sample_vocal_def sample_beat_def initial_world_def
        initial_view_def handleSubmit_def handleSubmit_begin_def handleSubmit_end_def
        handleVocalAudioChange_def handleBeatAudioChange_def setProcessedAudio_def
        setView_def issue_def)

subsection \<open>Double arithmetic\<close>

lemma round_even_of_int: "round_even (of_int n) = n"
  by (simp add: round_even_def)

text \<open>The leading bit of a positive rational is at most the rational.\<close>

lemma ilog2_lower:
  assumes "0 < q"
  shows "2 powi (ilog2 q) \<le> q"
proof -
  obtain p d where pd: "quotient_of q = (p, d)" by (cases "quotient_of q")
  then have d: "0 < d" and q: "q = of_int p / of_int d"
    using quotient_of_denom_pos [OF pd] quotient_of_div [OF pd] by simp_all
  with assms have p: "0 < p"
    by (simp add: zero_less_divide_iff)
  have bp: "2 ^ nat (bitlen p - 1) \<le> p" and bd: "d < 2 ^ nat (bitlen d)"
    using bitlen_bounds [of p] bitlen_bounds [of d] p d by simp_all
  have bp1: "1 \<le> bitlen p"
    using p by (simp add: bitlen_alt_def)
  have bd0: "0 \<le> bitlen d"
    by (rule bitlen_nonneg)
  show ?thesis
  proof (cases "2 powi (bitlen p - bitlen d) \<le> q")
    case True
    then show ?thesis
      by (simp add: ilog2_def pd)
  next
    case False
    have "(2::rat) powi (bitlen p - bitlen d - 1) = 2 powi (bitlen p - 1) / 2 powi (bitlen d)"
      by (simp add: power_int_diff)
    also have "\<dots> = 2 ^ nat (bitlen p - 1) / 2 ^ nat (bitlen d)"
      using bp1 bd0 by (simp add: power_int_def)
    also have "\<dots> \<le> of_int p / 2 ^ nat (bitlen d)"
    proof -
      have "(of_int (2 ^ nat (bitlen p - 1)) :: rat) \<le> of_int p"
        using bp by (simp only: of_int_le_iff)
      then show ?thesis by (simp add: divide_right_mono)
    qed
    also have "\<dots> \<le> of_int p / of_int d"
    proof -
      have "(of_int d :: rat) < of_int (2 ^ nat (bitlen d))"
        using bd by (simp only: of_int_less_iff)
      then have "(of_int d :: rat) \<le> 2 ^ nat (bitlen d)" by simp
      then show ?thesis using p d by (simp add: frac_le)
    qed
    finally have "(2::rat) powi (bitlen p - bitlen d - 1) \<le> q" using q by simp
    with False show ?thesis
      by (simp add: ilog2_def pd)
  qed
qed

text \<open>A rational that is a double is its own rounding.\<close>

lemma to_double_exact:
  assumes "q = of_int m * 2 powi e'" and "\<bar>m\<bar> < 2 ^ 53"
  shows "to_double q = q"
proof (cases "q = 0")
  case True
  then show ?thesis by (simp add: to_double_def)
next
  case False
  define e where "e = ilog2 \<bar>q\<bar> - 52"
  have "2 powi (ilog2 \<bar>q\<bar>) \<le> \<bar>q\<bar>"
    using False by (simp add: ilog2_lower)
  also have "\<bar>q\<bar> = of_int \<bar>m\<bar> * 2 powi e'"
    by (simp add: assms(1) abs_mult)
  also have "\<dots> < 2 ^ 53 * 2 powi e'"
  proof -
    have "(of_int \<bar>m\<bar> :: rat) < of_int (2 ^ 53)"
      using assms(2) by (simp only: of_int_less_iff)
    then show ?thesis by (simp add: zero_less_power_int)
  qed
  also have "\<dots> = 2 powi (53 + e')"
    by (simp add: power_int_add)
  finally have lt: "(2::rat) powi (ilog2 \<bar>q\<bar>) < 2 powi (53 + e')" .
  have "ilog2 \<bar>q\<bar> < 53 + e'"
  proof (rule ccontr)
    assume "\<not> ilog2 \<bar>q\<bar> < 53 + e'"
    then have "(2::rat) powi (53 + e') \<le> 2 powi (ilog2 \<bar>q\<bar>)"
      by (intro power_int_increasing) simp_all
    with lt show False by simp
  qed
  then have le: "e \<le> e'" by (simp add: e_def)
  have "q / 2 powi e = of_int m * 2 powi (e' - e)"
    by (simp add: assms(1) power_int_diff)
  also have "\<dots> = of_int (m * 2 ^ nat (e' - e))"
    using le by (simp add: power_int_def)
  finally have "round_even (q / 2 powi e) = m * 2 ^ nat (e' - e)"
    by (simp only: round_even_of_int)
  then have "to_double q = of_int (m * 2 ^ nat (e' - e)) * 2 powi e"
    using False by (simp add: to_double_def e_def Let_def)
  also have "\<dots> = of_int m * (2 powi (e' - e) * 2 powi e)"
    using le by (simp add: power_int_def)
  also have "\<dots> = q"
    by (simp add: assms(1) power_int_diff)
  finally show ?thesis .
qed

lemma to_double_quarters:
  assumes "\<bar>m\<bar> < 2 ^ 53"
  shows "to_double (of_int m / 4) = of_int m / 4"
proof -
  have "(2::rat) powi (- 2) = 1 / 4"
    by (simp add: power_int_def power2_eq_square)
  then have "(of_int m / 4 :: rat) = of_int m * 2 powi (- 2)"
    by simp
  then show ?thesis
    using assms by (rule to_double_exact)
qed

lemma quarter_times_direction:
  "js_mul (- 1) (1 / 4) = - (1 / 4) \<and> js_mul 1 (1 / 4) = 1 / 4"
  by code_simp

text \<open>On the quarter-beat grid a step of a quarter is exact.\<close>

lemma quarter_step_exact:
  assumes "on_quarter_grid x"
  shows "js_add x (1 / 4) = x + 1 / 4" and "js_add x (- (1 / 4)) = x - 1 / 4"
proof -
  define n where "n = \<lfloor>4 * x\<rfloor>"
  have "of_int n = 4 * x" and b: "\<bar>x\<bar> \<le> 2 ^ 50"
    using assms unfolding on_quarter_grid_def n_def by blast+
  then have x: "x = of_int n / 4"
    by simp
  have "\<bar>of_int n :: rat\<bar> \<le> 4 * 2 ^ 50"
    using b by (simp add: x)
  then have "\<bar>of_int n :: rat\<bar> \<le> of_int (4 * 2 ^ 50)"
    by simp
  then have "(of_int \<bar>n\<bar> :: rat) \<le> of_int (4 * 2 ^ 50)"
    by simp
  then have n: "\<bar>n\<bar> \<le> 4 * 2 ^ 50"
    by (simp only: of_int_le_iff)
  have up: "\<bar>n + 1\<bar> < 2 ^ 53" and down: "\<bar>n - 1\<bar> < 2 ^ 53"
    using n by simp_all
  have e1: "x + 1 / 4 = of_int (n + 1) / 4"
    and e2: "x + - (1 / 4) = of_int (n - 1) / 4"
    by (simp_all add: x add_divide_distrib diff_divide_distrib)
  show "js_add x (1 / 4) = x + 1 / 4"
    unfolding js_add_def e1 by (rule to_double_quarters [OF up])
  have "to_double (x + - (1 / 4)) = x + - (1 / 4)"
    unfolding e2 by (rule to_double_quarters [OF down])
  then show "js_add x (- (1 / 4)) = x - 1 / 4"
    by (simp add: js_add_def)
qed

text \<open>Off the grid the sum is rounded, and beyond \<open>2^53\<close> a quarter is lost.\<close>

lemma tenth_plus_quarter:
  "js_add double_tenth (js_mul 1 (1 / 4)) = 3152519739159347 / 9007199254740992"
  by code_simp

lemma big_plus_quarter:
  "js_add 9007199254740992 (js_mul 1 (1 / 4)) = 9007199254740992"
  by code_simp

lemma tenth_plus_quarter_inexact:
  "js_add double_tenth (js_mul 1 (1 / 4)) \<noteq> double_tenth + 1 / 4"
proof -
  have "(3152519739159347 / 9007199254740992 :: rat) \<noteq> double_tenth + 1 / 4"
    by (simp add: double_tenth_def)
  then show ?thesis
    unfolding tenth_plus_quarter .
qed

subsection \<open>The handlers\<close>

text \<open>
  The backend's answer to the prepare request may carry the empty string as
  identifier. The stored identifier is then not \<open>null\<close>, yet neither handler
  sends anything: the statement "a non-null identifier sends the request" fails
  there.
\<close>

theorem empty_identifier_sends_nothing:
  "processingId (view sample_empty_id) \<noteq> None \<and>
   handleOffsetChange (3 / 4) (Resolved (Some ''/preview/p1'')) 9 sample_empty_id =
     sample_empty_id \<and>
   handleFinalizeMix (Resolved ()) sample_empty_id = sample_empty_id \<and>
   \<not> trace (handleOffsetChange (3 / 4) (Resolved (Some ''/preview/p1'')) 9 sample_empty_id) =
       trace sample_empty_id @ [Request (Post ''/api/adjust-offset''
          [(''processing_id'', TextField (the (processingId (view sample_empty_id)))),
           (''offset_beats'', NumberField (3 / 4))] False)] \<and>
   \<not> trace (handleFinalizeMix (Resolved ()) sample_empty_id) =
       trace sample_empty_id @ [Request (Post ''/api/finalize-mix''
          [(''processing_id'', TextField (the (processingId (view sample_empty_id))))] True)]"
  by (simp add: sample_empty_id_def sample_submit_view sample_prepared_def
        handleOffsetChange_def handleOffsetChange_begin_def handleFinalizeMix_def
        handleFinalizeMix_begin_def truthy_def)

text \<open>
  C3, amended. \<open>handleOffsetChange\<close> and \<open>handleFinalizeMix\<close> check nothing but
  the stored processing identifier, by JavaScript truthiness. When it is falsy
  (\<open>null\<close> or the empty string, for example) they return at once: the world, that is the
  view state and the trace of requests, is unchanged. When it is truthy (a
  non-empty string), exactly one request is sent, whatever the offset value and
  whatever the answer: the trace grows by that single request, so a failure is
  not retried.
\<close>

theorem offset_and_finalize_check_only_processing_id:
  "(\<not> truthy (processingId (view w)) \<longrightarrow>
      handleOffsetChange x oc now w = w \<and> handleFinalizeMix fo w = w) \<and>
   (truthy (processingId (view w)) \<longrightarrow>
      trace (handleOffsetChange x oc now w) =
        trace w @ [Request (Post ''/api/adjust-offset''
                     [(''processing_id'', TextField (the (processingId (view w)))),
                      (''offset_beats'', NumberField x)] False)] \<and>
      trace (handleFinalizeMix fo w) =
        trace w @ [Request (Post ''/api/finalize-mix''
                     [(''processing_id'', TextField (the (processingId (view w))))] True)])"
proof (intro conjI impI)
  assume "\<not> truthy (processingId (view w))"
  then show "handleOffsetChange x oc now w = w"
    by (simp add: handleOffsetChange_def handleOffsetChange_begin_def)
next
  assume "\<not> truthy (processingId (view w))"
  then show "handleFinalizeMix fo w = w"
    by (simp add: handleFinalizeMix_def handleFinalizeMix_begin_def)
next
  assume "truthy (processingId (view w))"
  then show "trace (handleOffsetChange x oc now w) =
        trace w @ [Request (Post ''/api/adjust-offset''
                     [(''processing_id'', TextField (the (processingId (view w)))),
                      (''offset_beats'', NumberField x)] False)]"
    by (cases oc)
      (simp_all add: handleOffsetChange_def handleOffsetChange_begin_def
        handleOffsetChange_end_def setView_def issue_def)
next
  assume "truthy (processingId (view w))"
  then show "trace (handleFinalizeMix fo w) =
        trace w @ [Request (Post ''/api/finalize-mix''
                     [(''processing_id'', TextField (the (processingId (view w))))] True)]"
    by (cases fo)
      (simp_all add: handleFinalizeMix_def handleFinalizeMix_begin_def
        handleFinalizeMix_end_def setView_def issue_def createObjectURL_def
        setProcessedAudio_def revokeObjectURL_def Let_def split: option.splits)
qed

theorem offset_and_finalize_check_only_processing_id_witness:
  "\<not> truthy (processingId (view (initial_world initial_view))) \<and>
   handleOffsetChange (7 / 3) (Resolved (Some ''/preview/p1'')) 5 (initial_world initial_view)
     = initial_world initial_view \<and>
   handleFinalizeMix (Resolved ()) (initial_world initial_view) = initial_world initial_view \<and>
   \<not> truthy (processingId (view sample_empty_id)) \<and>
   handleOffsetChange (7 / 3) (Resolved (Some ''/preview/p1'')) 5 sample_empty_id
     = sample_empty_id \<and>
   truthy (processingId (view sample_preview)) \<and>
   processingId (view sample_preview) = Some ''p1'' \<and>
   trace (handleOffsetChange (7 / 3) (Rejected network_error) 5 sample_preview) =
     trace sample_preview @ [Request (Post ''/api/adjust-offset''
        [(''processing_id'', TextField ''p1''), (''offset_beats'', NumberField (7 / 3))] False)] \<and>
   trace (handleFinalizeMix (Rejected network_error) sample_preview) =
     trace sample_preview @ [Request (Post ''/api/finalize-mix''
        [(''processing_id'', TextField ''p1'')] True)]"
proof -
  have n: "\<not> truthy (processingId (view (initial_world initial_view :: app_view world)))"
    by (simp add: initial_world_def initial_view_def truthy_def)
  have e: "\<not> truthy (processingId (view sample_empty_id))"
    by (simp add: sample_empty_id_def sample_submit_view sample_prepared_def truthy_def)
  have p: "processingId (view sample_preview) = Some ''p1''"
    by (simp add: sample_preview_view)
  show ?thesis
    using n e sample_preview_truthy p
      offset_and_finalize_check_only_processing_id
        [of "initial_world initial_view" "7 / 3" "Resolved (Some ''/preview/p1'')" 5 "Resolved ()"]
      offset_and_finalize_check_only_processing_id
        [of sample_empty_id "7 / 3" "Resolved (Some ''/preview/p1'')" 5 "Resolved ()"]
      offset_and_finalize_check_only_processing_id
        [of sample_preview "7 / 3" "Rejected network_error" 5 "Rejected network_error"]
    by (simp add: initial_world_def initial_view_def)
qed

text \<open>
  The quarter-beat action on three preview pages. Where the backend supplied
  the offset 0.1, the stored offset does not move by a quarter: the sum is
  rounded. Where it supplied \<open>2^53\<close>, the stored offset does not move at all.
  Where it supplied no identifier, the arrows are on the page and enabled, and
  a click changes nothing.
\<close>

theorem quarter_beat_step_not_always_a_quarter:
  "offsetBeats (view (sample_with_offset double_tenth)) = double_tenth \<and>
   \<not> offsetBeats (view (handleQuarterBeatAdjustment 1 (Resolved (Some ''/preview/p1'')) 9
        (sample_with_offset double_tenth))) =
       offsetBeats (view (sample_with_offset double_tenth)) + 1 / 4 \<and>
   \<not> offsetBeats (view (handleQuarterBeatAdjustment 1 (Resolved (Some ''/preview/p1'')) 9
        (sample_with_offset 9007199254740992))) =
       offsetBeats (view (sample_with_offset 9007199254740992)) + 1 / 4 \<and>
   preview_shown (view sample_no_id) \<and> \<not> arrow_disabled (view sample_no_id) \<and>
   \<not> offsetBeats (view (handleQuarterBeatAdjustment 1 (Resolved (Some ''/preview/p1'')) 9
        sample_no_id)) =
       offsetBeats (view sample_no_id) + 1 / 4"
  by (simp add: sample_with_offset_def sample_no_id_def sample_submit_view sample_prepared_def
        handleQuarterBeatAdjustment_def handleOffsetChange_def handleOffsetChange_begin_def
        handleOffsetChange_end_def setView_def issue_def truthy_def
        tenth_plus_quarter_inexact big_plus_quarter preview_shown_def arrow_disabled_def
        initial_view_def tmpl_def)

text \<open>
  C4, amended. With a processing identifier stored, the quarter-beat action
  stores the double-precision sum of the old offset and the direction times
  0.25, whether the request that follows succeeds or fails; when the old offset
  is a multiple of 0.25 of magnitude at most \<open>2^50\<close> that sum is exact, so the
  offset moves by exactly minus 0.25 for direction \<open>-1\<close> (earlier) and plus 0.25
  for direction \<open>1\<close> (later); the reset control stores exactly 0. With no
  identifier stored, neither action changes anything.
\<close>

theorem quarter_beat_adjustment_and_reset:
  "(truthy (processingId (view w)) \<longrightarrow>
      offsetBeats (view (handleQuarterBeatAdjustment d oc now w)) =
        js_add (offsetBeats (view w)) (js_mul d (1 / 4)) \<and>
      offsetBeats (view (resetOffset oc now w)) = 0 \<and>
      (on_quarter_grid (offsetBeats (view w)) \<longrightarrow>
         offsetBeats (view (handleQuarterBeatAdjustment (- 1) oc now w)) =
           offsetBeats (view w) - 1 / 4 \<and>
         offsetBeats (view (handleQuarterBeatAdjustment 1 oc now w)) =
           offsetBeats (view w) + 1 / 4)) \<and>
   (\<not> truthy (processingId (view w)) \<longrightarrow>
      handleQuarterBeatAdjustment d oc now w = w \<and> resetOffset oc now w = w)"
proof (intro conjI impI)
  assume t: "truthy (processingId (view w))"
  then show "offsetBeats (view (handleQuarterBeatAdjustment d oc now w)) =
        js_add (offsetBeats (view w)) (js_mul d (1 / 4))"
    by (cases oc)
      (simp_all add: handleQuarterBeatAdjustment_def handleOffsetChange_def
        handleOffsetChange_begin_def handleOffsetChange_end_def setView_def issue_def)
  from t show "offsetBeats (view (resetOffset oc now w)) = 0"
    by (cases oc)
      (simp_all add: resetOffset_def handleOffsetChange_def handleOffsetChange_begin_def
        handleOffsetChange_end_def setView_def issue_def)
  assume g: "on_quarter_grid (offsetBeats (view w))"
  from t show "offsetBeats (view (handleQuarterBeatAdjustment (- 1) oc now w)) =
        offsetBeats (view w) - 1 / 4"
    by (cases oc)
      (simp_all add: handleQuarterBeatAdjustment_def handleOffsetChange_def
        handleOffsetChange_begin_def handleOffsetChange_end_def setView_def issue_def
        quarter_times_direction quarter_step_exact [OF g])
  from t show "offsetBeats (view (handleQuarterBeatAdjustment 1 oc now w)) =
        offsetBeats (view w) + 1 / 4"
    by (cases oc)
      (simp_all add: handleQuarterBeatAdjustment_def handleOffsetChange_def
        handleOffsetChange_begin_def handleOffsetChange_end_def setView_def issue_def
        quarter_times_direction quarter_step_exact [OF g])
next
  assume "\<not> truthy (processingId (view w))"
  then show "handleQuarterBeatAdjustment d oc now w = w"
    by (simp add: handleQuarterBeatAdjustment_def handleOffsetChange_def
          handleOffsetChange_begin_def)
next
  assume "\<not> truthy (processingId (view w))"
  then show "resetOffset oc now w = w"
    by (simp add: resetOffset_def handleOffsetChange_def handleOffsetChange_begin_def)
qed

theorem quarter_beat_adjustment_and_reset_witness:
  "truthy (processingId (view sample_preview)) \<and>
   on_quarter_grid (offsetBeats (view sample_preview)) \<and>
   offsetBeats (view sample_preview) = 1 / 2 \<and>
   offsetBeats (view (handleQuarterBeatAdjustment (- 1) (Rejected network_error) 9
     sample_preview)) = 1 / 4 \<and>
   offsetBeats (view (handleQuarterBeatAdjustment 1 (Rejected network_error) 9
     sample_preview)) = 3 / 4 \<and>
   offsetBeats (view (resetOffset (Rejected network_error) 9 sample_preview)) = 0 \<and>
   \<not> truthy (processingId (view sample_no_id)) \<and>
   handleQuarterBeatAdjustment 1 (Rejected network_error) 9 sample_no_id = sample_no_id \<and>
   resetOffset (Rejected network_error) 9 sample_no_id = sample_no_id"
proof -
  have g: "on_quarter_grid (offsetBeats (view sample_preview))"
    by (simp add: sample_preview_view on_quarter_grid_def)
  have n: "\<not> truthy (processingId (view sample_no_id))"
    by (simp add: sample_no_id_def sample_submit_view sample_prepared_def truthy_def)
  show ?thesis
    using sample_preview_truthy g n
      quarter_beat_adjustment_and_reset
        [of sample_preview 1 "Rejected network_error" 9]
      quarter_beat_adjustment_and_reset
        [of sample_no_id 1 "Rejected network_error" 9]
    by (simp add: sample_preview_view)
qed

text \<open>
  C9. \<open>handleOffsetChange\<close> stores the requested offset before the request is
  awaited and the error branch does not restore it: after a failed request the
  stored offset is the requested one, while the preview URL is still the one of
  the last successful request; the adjusting flag is cleared and an error
  message is stored.
\<close>

theorem failed_offset_change_keeps_new_offset:
  assumes "truthy (processingId (view w))"
  shows "offsetBeats (view (handleOffsetChange x (Rejected err) now w)) = x \<and>
         previewUrl (view (handleOffsetChange x (Rejected err) now w)) = previewUrl (view w) \<and>
         \<not> isAdjusting (view (handleOffsetChange x (Rejected err) now w))"
  using assms
  by (simp add: handleOffsetChange_def handleOffsetChange_begin_def
        handleOffsetChange_end_def setView_def issue_def)

theorem failed_offset_change_keeps_new_offset_witness:
  "truthy (processingId (view sample_preview)) \<and>
   offsetBeats (view sample_preview) = 1 / 2 \<and>
   offsetBeats (view (handleOffsetChange (3 / 4) (Rejected network_error) 9 sample_preview))
     = 3 / 4 \<and>
   previewUrl (view (handleOffsetChange (3 / 4) (Rejected network_error) 9 sample_preview))
     = Some ''/api/preview/p1''"
  using sample_preview_truthy
    failed_offset_change_keeps_new_offset
      [OF sample_preview_truthy, of "3 / 4" network_error 9]
  by (simp add: sample_preview_view)

text \<open>
  The "New Mix" button on a finished mix: the two selected files are still in
  the view afterwards, so the statement "every transient entity is cleared by
  the reset" fails on the file handles.
\<close>

theorem new_mix_keeps_selected_files:
  "\<not> (vocalAudio (view (newMix sample_final)) = None \<and>
      beatAudio (view (newMix sample_final)) = None \<and>
      processingId (view (newMix sample_final)) = None \<and>
      offsetBeats (view (newMix sample_final)) = 0 \<and>
      previewUrl (view (newMix sample_final)) = None \<and>
      processedAudio (view (newMix sample_final)) = None)"
  by (simp add: newMix_view sample_final_world sample_preview_view)

text \<open>
  C5, amended. Each transient entity is set by a user action: a file handle by
  choosing a file; the processing identifier, the preview URL and the offset by
  a submission that succeeds; the offset by an adjustment; the object URL of the
  processed audio by a finalisation that succeeds. "New Mix" clears the
  processing identifier, the preview URL and the processed-audio URL (which is
  revoked), sets the offset to 0 and leaves preview mode; it keeps both
  selected file handles.
\<close>

theorem entities_set_by_actions_and_new_mix_keeps_files:
  "vocalAudio (view (handleVocalAudioChange (f # fs) w)) = Some f \<and>
   beatAudio (view (handleBeatAudioChange (f # fs) w)) = Some f \<and>
   (vocalAudio (view w) = Some v \<and> beatAudio (view w) = Some b \<longrightarrow>
      processingId (view (handleSubmit (Resolved r) w)) = processing_id r \<and>
      previewUrl (view (handleSubmit (Resolved r) w)) = Some (''/api'' @ tmpl (preview_url r)) \<and>
      offsetBeats (view (handleSubmit (Resolved r) w)) =
        (case offset_beats r of None \<Rightarrow> 0 | Some x \<Rightarrow> x)) \<and>
   (truthy (processingId (view w)) \<longrightarrow>
      offsetBeats (view (handleOffsetChange x oc now w)) = x \<and>
      processedAudio (view (handleFinalizeMix (Resolved ()) w)) =
        Some (''blob:'' @ show_nat (urlSeq w))) \<and>
   processingId (view (newMix w)) = None \<and>
   offsetBeats (view (newMix w)) = 0 \<and>
   previewUrl (view (newMix w)) = None \<and>
   processedAudio (view (newMix w)) = None \<and>
   \<not> isPreviewMode (view (newMix w)) \<and>
   objectUrls (newMix w) =
     (case processedAudio (view w) of
        None \<Rightarrow> objectUrls w
      | Some u \<Rightarrow> removeAll u (objectUrls w)) \<and>
   vocalAudio (view (newMix w)) = vocalAudio (view w) \<and>
   beatAudio (view (newMix w)) = beatAudio (view w)"
proof -
  have a: "vocalAudio (view (handleVocalAudioChange (f # fs) w)) = Some f"
      "beatAudio (view (handleBeatAudioChange (f # fs) w)) = Some f"
    by (simp_all add: handleVocalAudioChange_def handleBeatAudioChange_def setView_def)
  have b: "vocalAudio (view w) = Some v \<and> beatAudio (view w) = Some b \<longrightarrow>
      processingId (view (handleSubmit (Resolved r) w)) = processing_id r \<and>
      previewUrl (view (handleSubmit (Resolved r) w)) = Some (''/api'' @ tmpl (preview_url r)) \<and>
      offsetBeats (view (handleSubmit (Resolved r) w)) =
        (case offset_beats r of None \<Rightarrow> 0 | Some x \<Rightarrow> x)"
    by (simp add: handleSubmit_def handleSubmit_begin_def handleSubmit_end_def setView_def
        issue_def setProcessedAudio_def revokeObjectURL_def Let_def split: option.splits)
  have c: "truthy (processingId (view w)) \<longrightarrow>
      offsetBeats (view (handleOffsetChange x oc now w)) = x \<and>
      processedAudio (view (handleFinalizeMix (Resolved ()) w)) =
        Some (''blob:'' @ show_nat (urlSeq w))"
    by (cases oc)
      (simp_all add: handleOffsetChange_def handleOffsetChange_begin_def
        handleOffsetChange_end_def handleFinalizeMix_def handleFinalizeMix_begin_def
        handleFinalizeMix_end_def createObjectURL_def setProcessedAudio_def revokeObjectURL_def
        setView_def issue_def Let_def split: option.splits)
  show ?thesis
    using a b c by (simp add: newMix_view newMix_urls)
qed

theorem entities_set_by_actions_and_new_mix_keeps_files_witness:
  "vocalAudio (view sample_selected) = Some sample_vocal \<and>
   beatAudio (view sample_selected) = Some sample_beat \<and>
   truthy (processingId (view sample_final)) \<and>
   processingId (view (handleSubmit (Resolved sample_prepared) sample_selected)) = Some ''p1'' \<and>
   offsetBeats (view (handleSubmit (Resolved sample_prepared) sample_selected)) = 1 / 2 \<and>
   previewUrl (view (handleSubmit (Resolved sample_prepared) sample_selected)) =
     Some ''/api/preview/p1'' \<and>
   offsetBeats (view (handleOffsetChange (3 / 4) (Resolved (Some ''/preview/p1'')) 9
     sample_final)) = 3 / 4 \<and>
   processingId (view (newMix sample_final)) = None \<and>
   processedAudio (view (newMix sample_final)) = None \<and>
   objectUrls (newMix sample_final) = [] \<and>
   vocalAudio (view (newMix sample_final)) = Some sample_vocal \<and>
   beatAudio (view (newMix sample_final)) = Some sample_beat"
proof -
  have t: "truthy (processingId (view sample_final))"
    by (simp add: sample_final_world sample_preview_view truthy_def)
  show ?thesis
    using sample_selected_view t
      entities_set_by_actions_and_new_mix_keeps_files
        [of sample_vocal "[]" sample_selected sample_vocal sample_beat sample_prepared
            "3 / 4" "Resolved (Some ''/preview/p1'')" 9]
      entities_set_by_actions_and_new_mix_keeps_files
        [of sample_vocal "[]" sample_final sample_vocal sample_beat sample_prepared
            "3 / 4" "Resolved (Some ''/preview/p1'')" 9]
    by (simp add: sample_prepared_def tmpl_def sample_final_world sample_preview_view)
qed

subsection \<open>Requests in flight\<close>





































section \<open>Properties of the job-polling interface\<close>

lemma sample_job_view:
  "view sample_job =
     initial_job\<lparr>vocalFile := Some sample_vocal, beatFile := Some sample_beat\<rparr>"
  "trace sample_job = []"
  by (simp_all add: sample_job_def handleVocalUpload_def handleBeatUpload_def setView_def
        initial_world_def)

text \<open>
  As long as the status endpoint answers \<open>processing\<close>, each answer costs one
  request followed by one timer of 2000 ms, and the polling goes on.
\<close>

lemma pollStatus_while_processing:
  "pollStatus jid (replicate k (Resolved (StatusBody (Some ''processing''))) @ answers) w =
     pollStatus jid answers
       (w\<lparr>trace := trace w @
          concat (replicate k [Request (Get (API_URL @ ''/status/'' @ tmpl jid)), Timer 2000])\<rparr>)"
proof (induction k arbitrary: w)
  case 0
  show ?case by simp
next
  case (Suc k)
  show ?case by (simp add: Suc.IH issue_def setTimeout_def)
qed

text \<open>
  C6. With both files selected and the submission answered with a job
  identifier, the component requests the status of that identifier; every
  answer \<open>processing\<close> is followed by a timer of 2000 ms and another status
  request, and the polling has not settled while all answers so far say
  \<open>processing\<close>. The first answer \<open>completed\<close> settles it: no timer and no request
  follows, the status is \<open>completed\<close>, \<open>processing\<close> is false and the download
  URL is \<open>API_URL/download/<id>\<close>.
\<close>

theorem polling_repeats_until_completed:
  assumes "vocalFile (view w) = Some v" and "beatFile (view w) = Some b"
  shows "handleSubmit_job (Resolved jid) (replicate k (Resolved (StatusBody (Some ''processing'')))) w = None \<and>
         (\<exists>w'. handleSubmit_job (Resolved jid)
                  (replicate k (Resolved (StatusBody (Some ''processing''))) @
                   Resolved (StatusBody (Some ''completed'')) # later) w = Some w' \<and>
               status (view w') = ''completed'' \<and>
               \<not> processing (view w') \<and>
               jobId (view w') = jid \<and>
               downloadUrl (view w') = Some (API_URL @ ''/download/'' @ tmpl jid) \<and>
               trace w' =
                 trace w @ [Request (Post (API_URL @ ''/process'') (process_form v b) False)] @
                 concat (replicate k
                   [Request (Get (API_URL @ ''/status/'' @ tmpl jid)), Timer 2000]) @
                 [Request (Get (API_URL @ ''/status/'' @ tmpl jid))])"
proof
  show "handleSubmit_job (Resolved jid) (replicate k (Resolved (StatusBody (Some ''processing'')))) w = None"
    using assms pollStatus_while_processing [of jid k "[]"]
    by (simp add: handleSubmit_job_def)
next
  show "\<exists>w'. handleSubmit_job (Resolved jid)
                  (replicate k (Resolved (StatusBody (Some ''processing''))) @
                   Resolved (StatusBody (Some ''completed'')) # later) w = Some w' \<and>
               status (view w') = ''completed'' \<and>
               \<not> processing (view w') \<and>
               jobId (view w') = jid \<and>
               downloadUrl (view w') = Some (API_URL @ ''/download/'' @ tmpl jid) \<and>
               trace w' =
                 trace w @ [Request (Post (API_URL @ ''/process'') (process_form v b) False)] @
                 concat (replicate k
                   [Request (Get (API_URL @ ''/status/'' @ tmpl jid)), Timer 2000]) @
                 [Request (Get (API_URL @ ''/status/'' @ tmpl jid))]"
    using assms
    by (simp add: handleSubmit_job_def pollStatus_while_processing issue_def setView_def)
qed

theorem polling_repeats_until_completed_witness:
  "vocalFile (view sample_job) = Some sample_vocal \<and>
   beatFile (view sample_job) = Some sample_beat \<and>
   handleSubmit_job (Resolved (Some ''j7''))
     [Resolved (StatusBody (Some ''processing'')), Resolved (StatusBody (Some ''processing''))] sample_job = None \<and>
   map_option (\<lambda>w'. (status (view w'), processing (view w'), downloadUrl (view w'), trace w'))
     (handleSubmit_job (Resolved (Some ''j7''))
        [Resolved (StatusBody (Some ''processing'')), Resolved (StatusBody (Some ''processing'')),
         Resolved (StatusBody (Some ''completed'')), Resolved (StatusBody (Some ''processing''))] sample_job) =
     Some (''completed'', False, Some ''http://localhost:8000/download/j7'',
       [Request (Post ''http://localhost:8000/process''
          (process_form sample_vocal sample_beat) False),
        Request (Get ''http://localhost:8000/status/j7''), Timer 2000,
        Request (Get ''http://localhost:8000/status/j7''), Timer 2000,
        Request (Get ''http://localhost:8000/status/j7'')])"
proof -
  have v: "vocalFile (view sample_job) = Some sample_vocal"
    and b: "beatFile (view sample_job) = Some sample_beat"
    by (simp_all add: sample_job_view)
  show ?thesis
    using v b
      polling_repeats_until_completed
        [OF v b, of "Some ''j7''" "Suc (Suc 0)" "[Resolved (StatusBody (Some ''processing''))]"]
    by (auto simp: sample_job_view API_URL_def tmpl_def)
qed

text \<open>
  An answer of the status endpoint whose body is \<open>null\<close> reports no status, yet
  the message stored is not \<open>Processing failed\<close>: reading the status throws and
  the \<open>catch\<close> block stores its own message.
\<close>

theorem null_body_is_not_processing_failed:
  "map_option (\<lambda>w'. error_text (view w'))
     (pollStatus (Some ''j7'') [Resolved NullBody] sample_job) =
     Some ''Error checking processing status'' \<and>
   \<not> map_option (\<lambda>w'. error_text (view w'))
     (pollStatus (Some ''j7'') [Resolved NullBody] sample_job) = Some ''Processing failed''"
  by (simp add: issue_def setView_def)

text \<open>
  C10, amended. When an answer of the status endpoint has a body whose status
  is neither \<open>completed\<close> nor \<open>processing\<close> (an unknown status, or a body
  without a status), at the first poll or after any number of \<open>processing\<close>
  answers, the polling settles with that request: \<open>processing\<close> is false, the
  status is \<open>error\<close> and the error message is \<open>Processing failed\<close>. When the
  answer has the body \<open>null\<close>, the polling settles in the same way except that
  the error message is \<open>Error checking processing status\<close>.
\<close>

theorem unknown_status_ends_polling:
  "(st \<noteq> Some ''completed'' \<and> st \<noteq> Some ''processing'' \<longrightarrow>
      (\<exists>w'. pollStatus jid
                (replicate k (Resolved (StatusBody (Some ''processing''))) @
                 Resolved (StatusBody st) # later) w = Some w' \<and>
             \<not> processing (view w') \<and>
             error_text (view w') = ''Processing failed'' \<and>
             status (view w') = ''error'' \<and>
             trace w' =
               trace w @
               concat (replicate k
                 [Request (Get (API_URL @ ''/status/'' @ tmpl jid)), Timer 2000]) @
               [Request (Get (API_URL @ ''/status/'' @ tmpl jid))])) \<and>
   (\<exists>w'. pollStatus jid
             (replicate k (Resolved (StatusBody (Some ''processing''))) @
              Resolved NullBody # later) w = Some w' \<and>
          \<not> processing (view w') \<and>
          error_text (view w') = ''Error checking processing status'' \<and>
          status (view w') = ''error'' \<and>
          trace w' =
            trace w @
            concat (replicate k
              [Request (Get (API_URL @ ''/status/'' @ tmpl jid)), Timer 2000]) @
            [Request (Get (API_URL @ ''/status/'' @ tmpl jid))])"
  by (simp add: pollStatus_while_processing issue_def setView_def)

theorem unknown_status_ends_polling_witness:
  "Some ''failed'' \<noteq> Some ''completed'' \<and> Some ''failed'' \<noteq> Some ''processing'' \<and>
   (None :: string option) \<noteq> Some ''completed'' \<and> None \<noteq> Some ''processing'' \<and>
   map_option (\<lambda>w'. (processing (view w'), error_text (view w'), trace w'))
     (pollStatus (Some ''j7'')
        [Resolved (StatusBody (Some ''processing'')), Resolved (StatusBody (Some ''failed'')),
         Resolved (StatusBody (Some ''completed''))]
        sample_job) =
     Some (False, ''Processing failed'',
       [Request (Get ''http://localhost:8000/status/j7''), Timer 2000,
        Request (Get ''http://localhost:8000/status/j7'')]) \<and>
   map_option (\<lambda>w'. (processing (view w'), error_text (view w'), trace w'))
     (pollStatus (Some ''j7'')
        [Resolved (StatusBody None), Resolved (StatusBody (Some ''completed''))] sample_job) =
     Some (False, ''Processing failed'', [Request (Get ''http://localhost:8000/status/j7'')]) \<and>
   map_option (\<lambda>w'. (processing (view w'), error_text (view w'), trace w'))
     (pollStatus (Some ''j7'')
        [Resolved NullBody, Resolved (StatusBody (Some ''completed''))] sample_job) =
     Some (False, ''Error checking processing status'',
       [Request (Get ''http://localhost:8000/status/j7'')])"
proof -
  have f: "Some ''failed'' \<noteq> Some ''completed'' \<and> Some ''failed'' \<noteq> Some ''processing''"
    and n: "(None :: string option) \<noteq> Some ''completed'' \<and>
      (None :: string option) \<noteq> Some ''processing''"
    by simp_all
  show ?thesis
    using f n
      unknown_status_ends_polling
        [of "Some ''failed''" "Some ''j7''" "Suc 0"
            "[Resolved (StatusBody (Some ''completed''))]" sample_job]
      unknown_status_ends_polling
        [of None "Some ''j7''" 0 "[Resolved (StatusBody (Some ''completed''))]" sample_job]
    by (auto simp: sample_job_view API_URL_def tmpl_def)
qed

section \<open>Failed requests\<close>

lemma prepare_failure_caught:
  assumes "vocalAudio (view w) = Some v" and "beatAudio (view w) = Some b"
  shows "truthy (error (view (handleSubmit (Rejected err) w))) \<and>
         \<not> isProcessing (view (handleSubmit (Rejected err) w)) \<and>
         trace (handleSubmit (Rejected err) w) =
           trace w @ [Request (Post ''/api/prepare-audio'' (prepare_form (view w) v b) False)]"
  using assms
  by (simp add: handleSubmit_def handleSubmit_begin_def handleSubmit_end_def setView_def
      issue_def setProcessedAudio_def revokeObjectURL_def Let_def handleApiError_sets_error
      split: option.splits)

lemma adjust_failure_caught:
  assumes "truthy (processingId (view w))"
  shows "truthy (error (view (handleOffsetChange x (Rejected err) now w))) \<and>
         \<not> isAdjusting (view (handleOffsetChange x (Rejected err) now w)) \<and>
         trace (handleOffsetChange x (Rejected err) now w) =
           trace w @ [Request (Post ''/api/adjust-offset''
              [(''processing_id'', TextField (the (processingId (view w)))),
               (''offset_beats'', NumberField x)] False)]"
  using assms
  by (simp add: handleOffsetChange_def handleOffsetChange_begin_def handleOffsetChange_end_def
      setView_def issue_def handleApiError_sets_error)

lemma finalize_failure_caught:
  assumes "truthy (processingId (view w))"
  shows "truthy (error (view (handleFinalizeMix (Rejected err) w))) \<and>
         \<not> isMerging (view (handleFinalizeMix (Rejected err) w)) \<and>
         trace (handleFinalizeMix (Rejected err) w) =
           trace w @ [Request (Post ''/api/finalize-mix''
              [(''processing_id'', TextField (the (processingId (view w))))] True)]"
  using assms
  by (simp add: handleFinalizeMix_def handleFinalizeMix_begin_def handleFinalizeMix_end_def
      setView_def issue_def handleApiError_sets_error)

lemma poll_failure_caught:
  "\<exists>w'. pollStatus jid (Rejected err # later) wj = Some w' \<and>
      error_text (view w') = ''Error checking processing status'' \<and>
      \<not> processing (view w') \<and>
      trace w' = trace wj @ [Request (Get (API_URL @ ''/status/'' @ tmpl jid))]"
  by (simp add: issue_def setView_def)

lemma job_submit_failure_caught:
  assumes "vocalFile (view wj) = Some v" and "beatFile (view wj) = Some b"
  shows "\<exists>w'. handleSubmit_job (Rejected err) polls wj = Some w' \<and>
      error_text (view w') = ''Error processing files. Please try again.'' \<and>
      \<not> processing (view w') \<and>
      trace w' = trace wj @ [Request (Post (API_URL @ ''/process'') (process_form v b) False)]"
  using assms by (simp add: handleSubmit_job_def issue_def setView_def)

lemma blob_submit_failure_caught:
  assumes "vocalAudio (view wb) = Some v" and "beatAudio (view wb) = Some b"
  shows "truthy (error (view (handleSubmit_blob (Rejected err) wb))) \<and>
         \<not> isProcessing (view (handleSubmit_blob (Rejected err) wb)) \<and>
         trace (handleSubmit_blob (Rejected err) wb) =
           trace wb @ [Request (Post ''/api/process-audio'' (process_form v b) True)]"
  using assms
  by (simp add: handleSubmit_blob_def setView_def issue_def handleApiError_sets_error)

lemma blob_submit_payload_caught:
  assumes "vocalAudio (view wb) = Some v" and "beatAudio (view wb) = Some b"
  shows "truthy (error (view (handleSubmit_blob (Resolved (JsonBlob (Some e))) wb))) \<and>
         \<not> isProcessing (view (handleSubmit_blob (Resolved (JsonBlob (Some e))) wb)) \<and>
         trace (handleSubmit_blob (Resolved (JsonBlob (Some e))) wb) =
           trace wb @ [Request (Post ''/api/process-audio'' (process_form v b) True)]"
  using assms
  by (simp add: handleSubmit_blob_def setView_def issue_def truthy_def)

lemma ts_submit_failure_caught:
  assumes "vocalAudio (view wb) = Some v" and "beatAudio (view wb) = Some b"
  shows "error (view (handleSubmit_ts (Rejected err) wb)) =
           Some ''An error occurred while processing the audio files.'' \<and>
         \<not> isProcessing (view (handleSubmit_ts (Rejected err) wb)) \<and>
         trace (handleSubmit_ts (Rejected err) wb) =
           trace wb @ [Request (Post ''/api/process-audio'' (process_form v b) True)]"
  using assms
  by (simp add: handleSubmit_ts_def handleSubmit_ts_begin_def handleSubmit_ts_end_def
      setView_def issue_def)

text \<open>
  C1. Every operation that talks to the backend catches a failed request where
  it was sent. For the prepare, adjust-offset and finalize requests of the
  offset-adjustment component, the status poll and the submission of the
  job-polling component, and the submissions of the two direct-download
  components: after a rejected request (a transport failure, or a failure body
  that is JSON or a blob of JSON), and for the JavaScript direct-download
  component also after a JSON failure body in a successful response, the view
  holds a non-empty error message, the in-progress flag of the operation is
  false, and the trace holds the one request that failed and nothing after it.
\<close>

theorem request_failure_caught_and_reported:
  "(vocalAudio (view w) = Some v \<and> beatAudio (view w) = Some b \<longrightarrow>
      truthy (error (view (handleSubmit (Rejected err) w))) \<and>
      \<not> isProcessing (view (handleSubmit (Rejected err) w)) \<and>
      trace (handleSubmit (Rejected err) w) =
        trace w @ [Request (Post ''/api/prepare-audio'' (prepare_form (view w) v b) False)]) \<and>
   (truthy (processingId (view w)) \<longrightarrow>
      truthy (error (view (handleOffsetChange x (Rejected err) now w))) \<and>
      \<not> isAdjusting (view (handleOffsetChange x (Rejected err) now w)) \<and>
      trace (handleOffsetChange x (Rejected err) now w) =
        trace w @ [Request (Post ''/api/adjust-offset''
           [(''processing_id'', TextField (the (processingId (view w)))),
            (''offset_beats'', NumberField x)] False)]) \<and>
   (truthy (processingId (view w)) \<longrightarrow>
      truthy (error (view (handleFinalizeMix (Rejected err) w))) \<and>
      \<not> isMerging (view (handleFinalizeMix (Rejected err) w)) \<and>
      trace (handleFinalizeMix (Rejected err) w) =
        trace w @ [Request (Post ''/api/finalize-mix''
           [(''processing_id'', TextField (the (processingId (view w))))] True)]) \<and>
   (\<exists>w'. pollStatus jid (Rejected err # later) wj = Some w' \<and>
      error_text (view w') = ''Error checking processing status'' \<and>
      \<not> processing (view w') \<and>
      trace w' = trace wj @ [Request (Get (API_URL @ ''/status/'' @ tmpl jid))]) \<and>
   (vocalFile (view wj) = Some v \<and> beatFile (view wj) = Some b \<longrightarrow>
      (\<exists>w'. handleSubmit_job (Rejected err) later wj = Some w' \<and>
        error_text (view w') = ''Error processing files. Please try again.'' \<and>
        \<not> processing (view w') \<and>
        trace w' =
          trace wj @ [Request (Post (API_URL @ ''/process'') (process_form v b) False)])) \<and>
   (vocalAudio (view wb) = Some v \<and> beatAudio (view wb) = Some b \<longrightarrow>
      truthy (error (view (handleSubmit_blob (Rejected err) wb))) \<and>
      \<not> isProcessing (view (handleSubmit_blob (Rejected err) wb)) \<and>
      trace (handleSubmit_blob (Rejected err) wb) =
        trace wb @ [Request (Post ''/api/process-audio'' (process_form v b) True)]) \<and>
   (vocalAudio (view wb) = Some v \<and> beatAudio (view wb) = Some b \<longrightarrow>
      truthy (error (view (handleSubmit_blob (Resolved (JsonBlob (Some e))) wb))) \<and>
      \<not> isProcessing (view (handleSubmit_blob (Resolved (JsonBlob (Some e))) wb)) \<and>
      trace (handleSubmit_blob (Resolved (JsonBlob (Some e))) wb) =
        trace wb @ [Request (Post ''/api/process-audio'' (process_form v b) True)]) \<and>
   (vocalAudio (view wb) = Some v \<and> beatAudio (view wb) = Some b \<longrightarrow>
      error (view (handleSubmit_ts (Rejected err) wb)) =
        Some ''An error occurred while processing the audio files.'' \<and>
      \<not> isProcessing (view (handleSubmit_ts (Rejected err) wb)) \<and>
      trace (handleSubmit_ts (Rejected err) wb) =
        trace wb @ [Request (Post ''/api/process-audio'' (process_form v b) True)])"
  using prepare_failure_caught [of w v b err] adjust_failure_caught [of w x err now]
    finalize_failure_caught [of w err] poll_failure_caught [of jid err later wj]
    job_submit_failure_caught [of wj v b err later] blob_submit_failure_caught [of wb v b err]
    blob_submit_payload_caught [of wb v b e] ts_submit_failure_caught [of wb v b err]
  by blast

theorem request_failure_caught_and_reported_witness:
  "vocalAudio (view sample_preview) = Some sample_vocal \<and>
   beatAudio (view sample_preview) = Some sample_beat \<and>
   truthy (processingId (view sample_preview)) \<and>
   vocalFile (view sample_job) = Some sample_vocal \<and>
   beatFile (view sample_job) = Some sample_beat \<and>
   vocalAudio (view sample_basic) = Some sample_vocal \<and>
   beatAudio (view sample_basic) = Some sample_beat \<and>
   truthy (error (view (handleSubmit (Rejected server_error) sample_preview))) \<and>
   \<not> isProcessing (view (handleSubmit (Rejected server_error) sample_preview)) \<and>
   truthy (error (view (handleOffsetChange (3 / 4) (Rejected server_error) 9 sample_preview))) \<and>
   \<not> isAdjusting (view (handleOffsetChange (3 / 4) (Rejected server_error) 9 sample_preview)) \<and>
   truthy (error (view (handleFinalizeMix (Rejected server_error) sample_preview))) \<and>
   \<not> isMerging (view (handleFinalizeMix (Rejected server_error) sample_preview)) \<and>
   map_option (\<lambda>w'. (error_text (view w'), processing (view w'), trace w'))
     (pollStatus (Some ''j7'') [Rejected server_error, Resolved (StatusBody (Some ''completed''))]
        sample_job) =
     Some (''Error checking processing status'', False,
           [Request (Get ''http://localhost:8000/status/j7'')]) \<and>
   map_option (\<lambda>w'. (error_text (view w'), processing (view w')))
     (handleSubmit_job (Rejected server_error) [Resolved (StatusBody (Some ''completed''))] sample_job) =
     Some (''Error processing files. Please try again.'', False) \<and>
   truthy (error (view (handleSubmit_blob (Rejected server_error) sample_basic))) \<and>
   truthy (error (view (handleSubmit_blob (Resolved (JsonBlob (Some (Some ''bad input''))))
     sample_basic))) \<and>
   trace (handleSubmit_ts (Rejected server_error) sample_basic) =
     [Request (Post ''/api/process-audio'' (process_form sample_vocal sample_beat) True)]"
proof -
  have p: "vocalAudio (view sample_preview) = Some sample_vocal"
      "beatAudio (view sample_preview) = Some sample_beat"
    by (simp_all add: sample_preview_view)
  have j: "vocalFile (view sample_job) = Some sample_vocal"
      "beatFile (view sample_job) = Some sample_beat"
    by (simp_all add: sample_job_view)
  have b: "vocalAudio (view sample_basic) = Some sample_vocal"
      "beatAudio (view sample_basic) = Some sample_beat"
    by (simp_all add: sample_basic_view)
  show ?thesis
    using p j b sample_preview_truthy
      request_failure_caught_and_reported
        [of sample_preview sample_vocal sample_beat server_error "3 / 4" 9
            "Some ''j7''" "[Resolved (StatusBody (Some ''completed''))]" sample_job sample_basic
            "Some ''bad input''"]
    by (auto simp: sample_job_view sample_basic_view API_URL_def tmpl_def)
qed

section \<open>Properties of the direct-download interfaces and of the file picker\<close>

text \<open>
  C7, on the TypeScript component. With both files selected, a click on the
  submit button sends the request and sets \<open>isProcessing\<close>; the button's
  \<open>disabled\<close> attribute is still false, and a second click sends the same
  request again while the first one is unanswered.
\<close>

theorem ts_submit_enabled_while_processing:
  "map_option (\<lambda>w. (isProcessing (view w), submit_disabled_ts (view w)))
     (handleSubmit_ts_begin sample_basic) = Some (True, False) \<and>
   map_option trace (Option.bind (handleSubmit_ts_begin sample_basic) handleSubmit_ts_begin) =
     Some [Request (Post ''/api/process-audio'' (process_form sample_vocal sample_beat) True),
           Request (Post ''/api/process-audio'' (process_form sample_vocal sample_beat) True)]"
  by (simp add: handleSubmit_ts_begin_def sample_basic_view setView_def issue_def
        submit_disabled_ts_def)

text \<open>
  On the job-polling component and on the two later components the statement
  holds: the button is enabled exactly when both files are selected and nothing
  is being processed, and a submission without both files sends nothing; the
  job-polling component then shows its message.
\<close>

lemma submit_enabled_iff:
  "(\<not> submit_disabled_job sj) =
     (vocalFile sj \<noteq> None \<and> beatFile sj \<noteq> None \<and> \<not> processing sj)"
  "(\<not> submit_disabled_blob sb) =
     (vocalAudio sb \<noteq> None \<and> beatAudio sb \<noteq> None \<and> \<not> isProcessing sb)"
  "(\<not> submit_disabled s) =
     (vocalAudio s \<noteq> None \<and> beatAudio s \<noteq> None \<and> \<not> isProcessing s)"
  by (auto simp: submit_disabled_job_def submit_disabled_blob_def submit_disabled_def)

lemma job_submit_without_files:
  assumes "vocalFile (view wj) = None \<or> beatFile (view wj) = None"
  shows "handleSubmit_job post polls wj =
           Some (wj\<lparr>view := (view wj)\<lparr>error_text := ''Please upload both vocal and beat files''\<rparr>\<rparr>)"
  using assms
  by (auto simp: handleSubmit_job_def setView_def split: option.splits)

text \<open>
  C8, on the file picker and the direct-download components. The job-polling
  page with two audio files selected creates one object URL per picker when it
  renders, and both are alive after the page is torn down; the object URL of
  the processed audio of either direct-download component is alive after its
  teardown as well.
\<close>

theorem object_urls_survive_teardown:
  "objectUrls (unmount_job (render_job sample_job)) = [''blob:1'', ''blob:0''] \<and>
   objectUrls (unmount_basic (handleSubmit_blob (Resolved AudioBlob) sample_basic)) =
     [''blob:0''] \<and>
   objectUrls (unmount_basic (handleSubmit_ts (Resolved ()) sample_basic)) = [''blob:0'']"
  by (simp add: unmount_job_def render_job_def render_AudioUploader_def
      unmount_AudioUploader_def sample_job_view sample_job_def handleVocalUpload_def
      handleBeatUpload_def setView_def initial_world_def sample_vocal_def sample_beat_def
      createObjectURL_def show_nat.simps digit_def unmount_basic_def handleSubmit_blob_def
      handleSubmit_ts_def handleSubmit_ts_begin_def handleSubmit_ts_end_def sample_basic_def
      handleVocalAudioChange_def handleBeatAudioChange_def issue_def initial_basic_def Let_def)

text \<open>The offset-adjustment component does revoke: nothing is alive after its teardown.\<close>

lemma sample_final_unmount: "objectUrls (unmount sample_final) = []"
  by (simp add: unmount_def revokeObjectURL_def sample_final_world)

end
